theory Spec2Isabelle
  imports Complex_Main
begin

section \<open>The VisionFen capture component (src/components/vision-fen.tsx)\<close>

text \<open>
  The component is a React function component. Its five \<open>useState\<close> cells and four
  \<open>useRef\<close> cells become the fields of one record; every handler of the source becomes a
  function from the record to the record. What the handlers reach outside the component
  (the tracks of a media stream, the toasts shown, the requests sent, the promises not yet
  settled) is kept in further fields of the same record, so that a handler's effect on the
  browser is part of its result.

  An asynchronous handler is cut at its \<open>await\<close> points: the part before the first
  \<open>await\<close> is one function, each continuation is another one, and the outcome the browser
  delivers (a stream, a blob, a response) is the argument of the continuation.

  The camera, the canvas, the crop engine (Cropper.js, loaded from a CDN by the layout) and
  the network are not code of the component. They appear as the arguments of the
  continuations and as the requests the component makes of them. Of the crop engine the
  model keeps what the component's control flow depends on: whether an instance is ready,
  and that \<open>getCroppedCanvas\<close> returns null when it is not (Cropper.js 1.6.2, the version
  the layout loads). What the engine draws and what the canvas encodes are not modelled.

  The specification's names for the states are \<open>Submitting\<close> for \<open>Loading\<close>, \<open>Completed\<close>
  for \<open>FenReceived\<close> and \<open>Failed\<close> for \<open>Error\<close>. The code has no error kinds: a failure is
  the string stored in \<open>error\<close>.
\<close>

subsection \<open>Data\<close>

datatype AppState = Idle | CameraOpen | ImageCaptured | Loading | FenReceived | Error

text \<open>A media stream is an object identity; its tracks live in the \<open>tracks\<close> store below.\<close>

datatype TrackState = Live | Ended

type_synonym MediaStream = nat

record HTMLVideoElement =
  srcObject :: "MediaStream option"
  playing :: bool

record HTMLImageElement =
  src :: string

text \<open>The options object passed to \<open>new window.Cropper\<close> (lines 100-110).\<close>

record CropperOptions =
  aspectRatio :: nat
  viewMode :: nat
  dragMode :: string
  background :: bool
  autoCropArea :: rat
  movable :: bool
  zoomable :: bool
  scalable :: bool
  rotatable :: bool

text \<open>
  A Cropper instance. It is not ready when constructed: it becomes ready when its image
  has loaded, and \<open>destroy\<close> ends that for good.
\<close>

record Cropper =
  element :: HTMLImageElement
  cropperOptions :: CropperOptions
  ready :: bool
  destroyed :: bool

text \<open>
  The values \<open>response.json()\<close> can yield, and \<open>undefined\<close> for a property that is not
  there. Numbers are abbreviated to integers.
\<close>

datatype jsvalue =
    JUndefined
  | JNull
  | JBool bool
  | JNum int
  | JStr string
  | JArr "jsvalue list"
  | JObj "(string \<times> jsvalue) list"

text \<open>The argument of \<open>getCroppedCanvas\<close> and the type argument of \<open>toBlob\<close> (lines 126-131, 170).\<close>

record CanvasOptions =
  width :: nat
  height :: nat
  imageSmoothingEnabled :: bool
  imageSmoothingQuality :: string

record BlobRequest =
  canvasOptions :: CanvasOptions
  blobType :: string

record Blob =
  mimeType :: string
  bytes :: "nat list"

text \<open>One entry of a \<open>FormData\<close> body, and a call of \<open>fetch\<close> (lines 138-145).\<close>

record FormPart =
  fieldName :: string
  fileName :: string
  contentType :: string
  content :: "nat list"

record Request =
  url :: string
  httpMethod :: string
  formData :: "FormPart list"

record Response =
  status :: nat
  json :: "jsvalue option"

record Toast =
  variant :: "string option"
  title :: string
  description :: "string option"

text \<open>
  The component. \<open>effectDeps\<close> and \<open>effectCleanup\<close> are what React keeps of the last run of
  the \<open>useEffect\<close> of lines 92-119: its dependency array, and whether that run returned a
  cleanup function. \<open>windowCropper\<close> says whether \<open>window.Cropper\<close> is a function.
  \<open>pendingCamera\<close>, \<open>pendingBlob\<close> and \<open>pendingFetch\<close> are the promises and callbacks
  not yet settled; \<open>fetches\<close> is every request sent so far.
\<close>

record VisionFen =
  appState :: AppState
  imageDataUrl :: "string option"
  fen :: "jsvalue option"
  error :: "string option"
  hasCameraPermission :: "bool option"
  videoRef :: "HTMLVideoElement option"
  imageRef :: "HTMLImageElement option"
  cropperRef :: "Cropper option"
  streamRef :: "MediaStream option"
  effectDeps :: "AppState \<times> string option"
  effectCleanup :: bool
  windowCropper :: bool
  tracks :: "MediaStream \<Rightarrow> TrackState list"
  nextStream :: MediaStream
  toasts :: "Toast list"
  clipboard :: "jsvalue option"
  pendingCamera :: nat
  pendingBlob :: "BlobRequest list"
  pendingFetch :: nat
  fetches :: "Request list"

text \<open>The state after the first render: \<open>useState\<close> and \<open>useRef\<close> initial values (lines 29-38).\<close>

definition initial :: "bool \<Rightarrow> VisionFen" where
  "initial loaded =
     \<lparr> appState = Idle, imageDataUrl = None, fen = None, error = None,
       hasCameraPermission = None, videoRef = None, imageRef = None, cropperRef = None,
       streamRef = None, effectDeps = (Idle, None), effectCleanup = True,
       windowCropper = loaded, tracks = (\<lambda>_. []), nextStream = 0, toasts = [],
       clipboard = None, pendingCamera = 0, pendingBlob = [], pendingFetch = 0,
       fetches = [] \<rparr>"

subsection \<open>Camera (lines 42-90)\<close>

definition stopTracks :: "TrackState list \<Rightarrow> TrackState list" where
  "stopTracks ts = map (\<lambda>_. Ended) ts"

definition cleanupCamera :: "VisionFen \<Rightarrow> VisionFen" where
  "cleanupCamera s =
     (let s1 = (case streamRef s of
                  None \<Rightarrow> s
                | Some stream \<Rightarrow>
                    s\<lparr> tracks := (tracks s)(stream := stopTracks (tracks s stream)),
                       streamRef := None \<rparr>)
      in case videoRef s1 of
           None \<Rightarrow> s1
         | Some v \<Rightarrow> s1\<lparr> videoRef := Some (v\<lparr> srcObject := None \<rparr>) \<rparr>)"

text \<open>\<open>requestCameraPermission\<close> up to its \<open>await\<close>: the cleanup, and the call of \<open>getUserMedia\<close>.\<close>

definition requestCameraPermission :: "VisionFen \<Rightarrow> VisionFen" where
  "requestCameraPermission s =
     (let s1 = cleanupCamera s in s1\<lparr> pendingCamera := Suc (pendingCamera s1) \<rparr>)"

text \<open>
  Its continuation when the promise resolves with a new stream of \<open>n\<close> live tracks
  (lines 56-62). The stream is stored and shown only if the video element is mounted.
\<close>

definition getUserMedia_resolved :: "nat \<Rightarrow> VisionFen \<Rightarrow> VisionFen" where
  "getUserMedia_resolved n s =
     (let stream = nextStream s;
          s1 = s\<lparr> tracks := (tracks s)(stream := replicate n Live),
                  nextStream := Suc stream \<rparr>;
          s2 = s1\<lparr> hasCameraPermission := Some True \<rparr>
      in case videoRef s2 of
           None \<Rightarrow> s2
         | Some v \<Rightarrow>
             s2\<lparr> videoRef := Some (v\<lparr> srcObject := Some stream, playing := True \<rparr>),
                 streamRef := Some stream,
                 appState := CameraOpen \<rparr>)"

text \<open>Its continuation when the promise rejects: the \<open>catch\<close> block (lines 63-74).\<close>

definition cameraErrorMessage :: string where
  "cameraErrorMessage =
     ''Could not access the camera. Please check permissions and try again.''"

definition cameraToast :: Toast where
  "cameraToast =
     \<lparr> variant = Some ''destructive'', title = ''Camera Error'',
       description = Some ''Could not access camera. Please check browser permissions.'' \<rparr>"

definition getUserMedia_rejected :: "VisionFen \<Rightarrow> VisionFen" where
  "getUserMedia_rejected s =
     s\<lparr> hasCameraPermission := Some False,
        error := Some cameraErrorMessage,
        appState := Error,
        toasts := toasts s @ [cameraToast] \<rparr>"

text \<open>
  \<open>handleCapture\<close>. The argument is what the canvas gave: \<open>None\<close> when
  \<open>getContext("2d")\<close> returned null, otherwise the string \<open>toDataURL\<close> returned for the
  frame drawn at the video's own width and height.
\<close>

definition handleCapture :: "string option \<Rightarrow> VisionFen \<Rightarrow> VisionFen" where
  "handleCapture canvas s =
     (case videoRef s of
        None \<Rightarrow> s
      | Some v \<Rightarrow>
          (case canvas of
             None \<Rightarrow> s
           | Some dataUrl \<Rightarrow>
               cleanupCamera (s\<lparr> imageDataUrl := Some dataUrl, appState := ImageCaptured \<rparr>)))"

subsection \<open>The crop effect (lines 92-119)\<close>

definition destroy :: "Cropper \<Rightarrow> Cropper" where
  "destroy c = c\<lparr> ready := False, destroyed := True \<rparr>"

definition newCropper :: "HTMLImageElement \<Rightarrow> Cropper" where
  "newCropper img =
     \<lparr> element = img,
       cropperOptions =
         \<lparr> aspectRatio = 1, viewMode = 1, dragMode = ''move'', background = False,
           autoCropArea = 9 / 10, movable = True, zoomable = True, scalable = True,
           rotatable = True \<rparr>,
       ready = False, destroyed = False \<rparr>"

text \<open>The engine reports that the image has loaded.\<close>

definition cropperReady :: "Cropper \<Rightarrow> Cropper" where
  "cropperReady c = (if destroyed c then c else c\<lparr> ready := True \<rparr>)"

text \<open>
  \<open>getCroppedCanvas\<close>: null (\<open>None\<close>) unless the instance is ready; otherwise a canvas,
  named here by the options it was asked for.
\<close>

definition getCroppedCanvas :: "Cropper \<Rightarrow> CanvasOptions \<Rightarrow> CanvasOptions option" where
  "getCroppedCanvas c opts = (if ready c then Some opts else None)"

text \<open>The cleanup function the effect returns (lines 114-118).\<close>

definition effect_cleanup :: "VisionFen \<Rightarrow> VisionFen" where
  "effect_cleanup s =
     (case cropperRef s of
        None \<Rightarrow> s
      | Some c \<Rightarrow> s\<lparr> cropperRef := Some (destroy c) \<rparr>)"

text \<open>
  The effect's body. The early \<open>return\<close> of line 97 returns no cleanup function; every
  other path returns the one above.
\<close>

definition effect_body :: "VisionFen \<Rightarrow> VisionFen" where
  "effect_body s =
     (case imageRef s of
        Some img \<Rightarrow>
          (if appState s = ImageCaptured \<and> imageDataUrl s \<noteq> None \<and> imageDataUrl s \<noteq> Some []
           then (if \<not> windowCropper s
                 then s\<lparr> error := Some ''Cropper.js not loaded. Please refresh the page.'',
                         appState := Error, effectCleanup := False \<rparr>
                 else s\<lparr> cropperRef := Some (newCropper img), effectCleanup := True \<rparr>)
           else s\<lparr> effectCleanup := True \<rparr>)
      | None \<Rightarrow> s\<lparr> effectCleanup := True \<rparr>)"

text \<open>
  React runs the effect after a render in which \<open>appState\<close> or \<open>imageDataUrl\<close> differs from
  the last run: first the cleanup the last run returned, then the body.
\<close>

definition run_effect :: "VisionFen \<Rightarrow> VisionFen" where
  "run_effect s =
     (if effectDeps s = (appState s, imageDataUrl s) then s
      else effect_body
             ((if effectCleanup s then effect_cleanup s else s)
                \<lparr> effectDeps := (appState s, imageDataUrl s) \<rparr>))"

subsection \<open>Submission (lines 121-171)\<close>

text \<open>
  \<open>handleSubmit\<close> up to the call of \<open>toBlob\<close>. The result of \<open>getCroppedCanvas\<close> is
  dereferenced unguarded (lines 126-131): on null the handler ends with a TypeError, after
  \<open>setAppState(Loading)\<close> and before any call of \<open>toBlob\<close>.
\<close>

definition handleSubmit :: "VisionFen \<Rightarrow> VisionFen" where
  "handleSubmit s =
     (case cropperRef s of
        None \<Rightarrow> s
      | Some c \<Rightarrow>
          (let s1 = s\<lparr> appState := Loading \<rparr>
           in case getCroppedCanvas c
                     \<lparr> width = 512, height = 512, imageSmoothingEnabled = True,
                       imageSmoothingQuality = ''high'' \<rparr> of
                None \<Rightarrow> s1
              | Some canvas \<Rightarrow>
                  s1\<lparr> pendingBlob := pendingBlob s1 @
                          [\<lparr> canvasOptions = canvas, blobType = ''image/jpeg'' \<rparr>] \<rparr>))"

definition predictUrl :: string where
  "predictUrl = ''http://10.147.210.166:8000/predict''"

text \<open>
  The \<open>toBlob\<close> callback up to its \<open>await fetch\<close> (lines 131-145). The blob is what the
  browser hands over; the part's content type is the blob's own type.
\<close>

definition encodeErrorMessage :: string where
  "encodeErrorMessage = ''Could not process image for submission.''"

definition toBlob_callback :: "Blob option \<Rightarrow> VisionFen \<Rightarrow> VisionFen" where
  "toBlob_callback blob s =
     (case blob of
        None \<Rightarrow> s\<lparr> error := Some encodeErrorMessage, appState := Error \<rparr>
      | Some b \<Rightarrow>
          s\<lparr> fetches := fetches s @
                 [\<lparr> url = predictUrl, httpMethod = ''POST'',
                    formData =
                      [\<lparr> fieldName = ''file'', fileName = ''chessboard.jpg'',
                         contentType = mimeType b, content = bytes b \<rparr>] \<rparr>],
             pendingFetch := Suc (pendingFetch s) \<rparr>)"

text \<open>\<open>response.ok\<close>: the status is in the range 200-299.\<close>

definition ok :: "Response \<Rightarrow> bool" where
  "ok r = (200 \<le> status r \<and> status r \<le> 299)"

text \<open>\<open>result.fen\<close>: reading a property of \<open>null\<close> throws (\<open>None\<close>).\<close>

fun fen_of :: "jsvalue \<Rightarrow> jsvalue option" where
  "fen_of JNull = None"
| "fen_of JUndefined = None"
| "fen_of (JObj kvs) = Some (case map_of kvs ''fen'' of None \<Rightarrow> JUndefined | Some v \<Rightarrow> v)"
| "fen_of _ = Some JUndefined"

fun truthy :: "jsvalue \<Rightarrow> bool" where
  "truthy JUndefined = False"
| "truthy JNull = False"
| "truthy (JBool b) = b"
| "truthy (JNum n) = (n \<noteq> 0)"
| "truthy (JStr s) = (s \<noteq> [])"
| "truthy (JArr _) = True"
| "truthy (JObj _) = True"

text \<open>The \<open>catch\<close> block of lines 158-166, and the \<open>finally\<close> of lines 167-169.\<close>

definition submitErrorMessage :: string where
  "submitErrorMessage =
     ''Failed to get FEN. The server might be down or the image is not a valid chessboard.''"

definition submission_failed :: "VisionFen \<Rightarrow> VisionFen" where
  "submission_failed s =
     s\<lparr> error := Some submitErrorMessage,
        appState := Error,
        toasts := toasts s @
          [\<lparr> variant = Some ''destructive'', title = ''Submission Failed'',
             description = Some ''Could not get FEN from the server. Please try again.'' \<rparr>] \<rparr>"

definition submission_finally :: "VisionFen \<Rightarrow> VisionFen" where
  "submission_finally s = s\<lparr> imageDataUrl := None \<rparr>"

text \<open>
  The continuation when \<open>fetch\<close> resolves (lines 147-157): \<open>json r = None\<close> is a body that
  \<open>response.json()\<close> rejects.
\<close>

definition fetch_resolved :: "Response \<Rightarrow> VisionFen \<Rightarrow> VisionFen" where
  "fetch_resolved r s =
     submission_finally
       (if \<not> ok r then submission_failed s
        else (case json r of
                None \<Rightarrow> submission_failed s
              | Some result \<Rightarrow>
                  (case fen_of result of
                     None \<Rightarrow> submission_failed s
                   | Some f \<Rightarrow>
                       if truthy f then s\<lparr> fen := Some f, appState := FenReceived \<rparr>
                       else submission_failed s)))"

text \<open>The continuation when \<open>fetch\<close> rejects (no connection).\<close>

definition fetch_rejected :: "VisionFen \<Rightarrow> VisionFen" where
  "fetch_rejected s = submission_finally (submission_failed s)"

subsection \<open>Reset, retake, copy (lines 173-195)\<close>

definition handleReset :: "VisionFen \<Rightarrow> VisionFen" where
  "handleReset s =
     (cleanupCamera s)
       \<lparr> imageDataUrl := None, fen := None, error := None, appState := Idle,
         hasCameraPermission := None \<rparr>"

definition handleRetake :: "VisionFen \<Rightarrow> VisionFen" where
  "handleRetake s = requestCameraPermission (s\<lparr> imageDataUrl := None, error := None \<rparr>)"

definition copyFenToClipboard :: "VisionFen \<Rightarrow> VisionFen" where
  "copyFenToClipboard s =
     (case fen s of
        None \<Rightarrow> s
      | Some f \<Rightarrow>
          if truthy f
          then s\<lparr> clipboard := Some f,
                  toasts := toasts s @
                    [\<lparr> variant = None, title = ''Copied to clipboard!'', description = None \<rparr>] \<rparr>
          else s)"

subsection \<open>Rendering (lines 197-310)\<close>

datatype Handler =
    RequestCameraPermission
  | HandleCapture
  | HandleSubmit
  | HandleReset
  | HandleRetake
  | CopyFenToClipboard

text \<open>
  What \<open>renderContent\<close> returns, reduced to what the component's logic can see: which card,
  the state it prints, and (below) the elements carrying a ref and the buttons.
\<close>

datatype View =
    IdleView
  | CameraView bool
  | CropView string
  | LoadingView
  | FenView "jsvalue option"
  | ErrorView "string option"

definition renderContent :: "VisionFen \<Rightarrow> View" where
  "renderContent s =
     (case appState s of
        CameraOpen \<Rightarrow> CameraView (hasCameraPermission s = Some False)
      | ImageCaptured \<Rightarrow>
          CropView (case imageDataUrl s of None \<Rightarrow> [] | Some u \<Rightarrow> u)
      | Loading \<Rightarrow> LoadingView
      | FenReceived \<Rightarrow> FenView (fen s)
      | Error \<Rightarrow> ErrorView (error s)
      | Idle \<Rightarrow> IdleView)"

fun buttons :: "View \<Rightarrow> (string \<times> Handler) list" where
  "buttons IdleView = [(''Scan Chessboard'', RequestCameraPermission)]"
| "buttons (CameraView _) = [(''Close'', HandleReset), (''Capture'', HandleCapture)]"
| "buttons (CropView _) = [(''Retake'', HandleRetake), (''Submit'', HandleSubmit)]"
| "buttons LoadingView = []"
| "buttons (FenView _) = [(''Copy'', CopyFenToClipboard), (''Start Over'', HandleReset)]"
| "buttons (ErrorView _) = [(''Try Again'', HandleReset)]"

text \<open>
  The refs after a render: the \<open>video\<close> element exists only in the camera card (line 208),
  the \<open>img\<close> element only in the crop card (line 235); React sets the ref of an element
  that is not rendered to null. An element that stays rendered is kept.
\<close>

definition render_refs :: "VisionFen \<Rightarrow> VisionFen" where
  "render_refs s =
     s\<lparr> videoRef :=
          (case renderContent s of
             CameraView _ \<Rightarrow>
               (case videoRef s of
                  None \<Rightarrow> Some \<lparr> srcObject = None, playing = False \<rparr>
                | Some v \<Rightarrow> Some v)
           | _ \<Rightarrow> None),
        imageRef :=
          (case renderContent s of
             CropView u \<Rightarrow> Some \<lparr> src = u \<rparr>
           | _ \<Rightarrow> None) \<rparr>"

text \<open>
  One render with its effects, and what follows a handler: the effect can set the state
  once (line 96), which renders again; the second effect run sets nothing.
\<close>

definition render_pass :: "VisionFen \<Rightarrow> VisionFen" where
  "render_pass s = run_effect (render_refs s)"

definition commit :: "VisionFen \<Rightarrow> VisionFen" where
  "commit s = render_pass (render_pass s)"

text \<open>Component teardown: the last effect's cleanup runs and the refs are detached.\<close>

definition unmount :: "VisionFen \<Rightarrow> VisionFen" where
  "unmount s =
     (if effectCleanup s then effect_cleanup s else s) \<lparr> videoRef := None, imageRef := None \<rparr>"

subsection \<open>Events\<close>

text \<open>
  What can happen to a mounted component: a click on a button the current view shows, and
  the settling of a pending promise or callback, each followed by the render it causes;
  and the crop engine becoming ready. A click on Capture is the event \<open>ClickCapture\<close>,
  which carries what the canvas gave; \<open>Click\<close> is a click on any other button. An event
  that cannot happen in a state gives \<open>None\<close>.
\<close>

datatype Event =
    Click Handler
  | ClickCapture "string option"
  | GetUserMediaResolved nat
  | GetUserMediaRejected
  | CropperReady
  | ToBlobCallback "Blob option"
  | FetchResolved Response
  | FetchRejected

fun handler :: "Handler \<Rightarrow> VisionFen \<Rightarrow> VisionFen" where
  "handler RequestCameraPermission s = requestCameraPermission s"
| "handler HandleCapture s = handleCapture None s"
| "handler HandleSubmit s = handleSubmit s"
| "handler HandleReset s = handleReset s"
| "handler HandleRetake s = handleRetake s"
| "handler CopyFenToClipboard s = copyFenToClipboard s"

definition shown :: "Handler \<Rightarrow> VisionFen \<Rightarrow> bool" where
  "shown h s = (h \<in> snd ` set (buttons (renderContent s)))"

fun step :: "Event \<Rightarrow> VisionFen \<Rightarrow> VisionFen option" where
  "step (Click h) s =
     (if shown h s \<and> h \<noteq> HandleCapture then Some (commit (handler h s)) else None)"
| "step (ClickCapture canvas) s =
     (if shown HandleCapture s then Some (commit (handleCapture canvas s)) else None)"
| "step (GetUserMediaResolved n) s =
     (if 0 < pendingCamera s
      then Some (commit (getUserMedia_resolved n (s\<lparr> pendingCamera := pendingCamera s - 1 \<rparr>)))
      else None)"
| "step GetUserMediaRejected s =
     (if 0 < pendingCamera s
      then Some (commit (getUserMedia_rejected (s\<lparr> pendingCamera := pendingCamera s - 1 \<rparr>)))
      else None)"
| "step CropperReady s =
     (case cropperRef s of
        None \<Rightarrow> None
      | Some c \<Rightarrow>
          if ready c \<or> destroyed c then None
          else Some (s\<lparr> cropperRef := Some (cropperReady c) \<rparr>))"
| "step (ToBlobCallback blob) s =
     (case pendingBlob s of
        [] \<Rightarrow> None
      | req # rest \<Rightarrow> Some (commit (toBlob_callback blob (s\<lparr> pendingBlob := rest \<rparr>))))"
| "step (FetchResolved r) s =
     (if 0 < pendingFetch s
      then Some (commit (fetch_resolved r (s\<lparr> pendingFetch := pendingFetch s - 1 \<rparr>)))
      else None)"
| "step FetchRejected s =
     (if 0 < pendingFetch s
      then Some (commit (fetch_rejected (s\<lparr> pendingFetch := pendingFetch s - 1 \<rparr>)))
      else None)"

fun run :: "Event list \<Rightarrow> VisionFen \<Rightarrow> VisionFen option" where
  "run [] s = Some s"
| "run (e # es) s = (case step e s of None \<Rightarrow> None | Some s' \<Rightarrow> run es s')"

inductive reachable :: "VisionFen \<Rightarrow> bool" where
  reach_initial: "reachable (initial loaded)"
| reach_step: "reachable s \<Longrightarrow> step e s = Some s' \<Longrightarrow> reachable s'"

text \<open>The streams with a track still running.\<close>

definition live :: "VisionFen \<Rightarrow> MediaStream \<Rightarrow> bool" where
  "live s stream = (Live \<in> set (tracks s stream))"


text \<open>What the code accepts as a result: a 2xx response whose JSON has a truthy \<open>fen\<close>.\<close>

definition accepted :: "Response \<Rightarrow> bool" where
  "accepted r =
     (ok r \<and>
      (case json r of
         None \<Rightarrow> False
       | Some result \<Rightarrow> (case fen_of result of None \<Rightarrow> False | Some f \<Rightarrow> truthy f)))"

subsection \<open>Example states and responses\<close>

text \<open>The camera card with one stream of one running track.\<close>

definition camera_open :: "bool \<Rightarrow> VisionFen" where
  "camera_open loaded =
     (initial loaded)
       \<lparr> appState := CameraOpen, hasCameraPermission := Some True,
         videoRef := Some \<lparr> srcObject = Some 0, playing = True \<rparr>,
         streamRef := Some 0, effectDeps := (CameraOpen, None),
         tracks := (\<lambda>_. [])(0 := [Live]), nextStream := 1 \<rparr>"

text \<open>The crop card over a captured frame, with its crop session open and ready.\<close>

definition frame :: string where
  "frame = ''data:image/jpeg;base64,/9j/4AAQ''"

definition cropping :: VisionFen where
  "cropping =
     (initial True)
       \<lparr> appState := ImageCaptured, imageDataUrl := Some frame,
         hasCameraPermission := Some True,
         imageRef := Some \<lparr> src = frame \<rparr>,
         cropperRef := Some (cropperReady (newCropper \<lparr> src = frame \<rparr>)),
         effectDeps := (ImageCaptured, Some frame),
         tracks := (\<lambda>_. [])(0 := [Ended]), nextStream := 1 \<rparr>"

text \<open>A submission in flight: the request is sent and not answered.\<close>

definition submitting :: VisionFen where
  "submitting =
     (initial True)
       \<lparr> appState := Loading, imageDataUrl := Some frame,
         hasCameraPermission := Some True,
         cropperRef := Some (destroy (newCropper \<lparr> src = frame \<rparr>)),
         effectDeps := (Loading, Some frame),
         tracks := (\<lambda>_. [])(0 := [Ended]), nextStream := 1,
         pendingFetch := 1,
         fetches :=
           [\<lparr> url = predictUrl, httpMethod = ''POST'',
              formData =
                [\<lparr> fieldName = ''file'', fileName = ''chessboard.jpg'',
                   contentType = ''image/jpeg'', content = [255, 216, 255] \<rparr>] \<rparr>] \<rparr>"

definition empty_board :: string where
  "empty_board = ''8/8/8/8/8/8/8/8 w - - 0 1''"

definition fen_response :: Response where
  "fen_response = \<lparr> status = 200, json = Some (JObj [(''fen'', JStr empty_board)]) \<rparr>"

definition server_error :: Response where
  "server_error = \<lparr> status = 500, json = None \<rparr>"

definition nofen_response :: Response where
  "nofen_response = \<lparr> status = 200, json = Some (JObj [(''nofen'', JBool True)]) \<rparr>"

section \<open>Properties\<close>

subsection \<open>What a render leaves alone\<close>

lemma render_pass_frame:
  "fen (render_pass s) = fen s"
  "imageDataUrl (render_pass s) = imageDataUrl s"
  "hasCameraPermission (render_pass s) = hasCameraPermission s"
  "streamRef (render_pass s) = streamRef s"
  "tracks (render_pass s) = tracks s"
  "nextStream (render_pass s) = nextStream s"
  "toasts (render_pass s) = toasts s"
  "clipboard (render_pass s) = clipboard s"
  "fetches (render_pass s) = fetches s"
  "pendingCamera (render_pass s) = pendingCamera s"
  "pendingBlob (render_pass s) = pendingBlob s"
  "pendingFetch (render_pass s) = pendingFetch s"
  "windowCropper (render_pass s) = windowCropper s"
  by (simp_all add: render_pass_def run_effect_def effect_body_def effect_cleanup_def
        render_refs_def split: option.splits)

lemma render_pass_appState:
  "appState s \<noteq> ImageCaptured \<Longrightarrow> appState (render_pass s) = appState s"
  "appState s \<noteq> ImageCaptured \<Longrightarrow> error (render_pass s) = error s"
  by (simp_all add: render_pass_def run_effect_def effect_body_def effect_cleanup_def
        render_refs_def split: option.splits)

lemma render_pass_videoRef:
  "appState s \<noteq> CameraOpen \<Longrightarrow> videoRef (render_pass s) = None"
  by (cases "appState s")
     (simp_all add: render_pass_def run_effect_def effect_body_def effect_cleanup_def
        render_refs_def renderContent_def split: option.splits)

lemma commit_frame:
  "fen (commit s) = fen s"
  "imageDataUrl (commit s) = imageDataUrl s"
  "hasCameraPermission (commit s) = hasCameraPermission s"
  "streamRef (commit s) = streamRef s"
  "tracks (commit s) = tracks s"
  "nextStream (commit s) = nextStream s"
  "toasts (commit s) = toasts s"
  "clipboard (commit s) = clipboard s"
  "fetches (commit s) = fetches s"
  "pendingCamera (commit s) = pendingCamera s"
  "pendingBlob (commit s) = pendingBlob s"
  "pendingFetch (commit s) = pendingFetch s"
  "windowCropper (commit s) = windowCropper s"
  by (simp_all add: commit_def render_pass_frame)

lemma commit_appState:
  "appState s \<noteq> ImageCaptured \<Longrightarrow> appState (commit s) = appState s"
  "appState s \<noteq> ImageCaptured \<Longrightarrow> error (commit s) = error s"
  by (simp_all add: commit_def render_pass_appState)

lemma commit_videoRef:
  "appState s \<noteq> CameraOpen \<Longrightarrow> appState s \<noteq> ImageCaptured \<Longrightarrow> videoRef (commit s) = None"
  by (simp add: commit_def render_pass_appState render_pass_videoRef)

lemma live_commit: "live (commit s) = live s"
  by (simp add: live_def fun_eq_iff commit_frame)

subsection \<open>Releasing the camera\<close>

text \<open>
  C6. \<open>cleanupCamera\<close> is idempotent. For every state of the stream handle, the video
  element and the tracks: a second call changes nothing; after a call the stream handle is
  null, a mounted video element has no source, and no track of the stream that was held is
  running; on a state with no stream and no video element the call changes nothing. The
  function has no failing path: both of its accesses are guarded by a null test.
\<close>

theorem cleanupCamera_idempotent:
  "cleanupCamera (cleanupCamera s) = cleanupCamera s
   \<and> streamRef (cleanupCamera s) = None
   \<and> (\<forall>v. videoRef (cleanupCamera s) = Some v \<longrightarrow> srcObject v = None)
   \<and> (\<forall>stream. streamRef s = Some stream \<longrightarrow> \<not> live (cleanupCamera s) stream)
   \<and> (streamRef s = None \<and> videoRef s = None \<longrightarrow> cleanupCamera s = s)"
  by (auto simp: cleanupCamera_def live_def stopTracks_def Let_def split: option.splits)

theorem cleanupCamera_idempotent_witness:
  "streamRef (camera_open True) = Some 0 \<and> live (camera_open True) 0
   \<and> \<not> live (cleanupCamera (camera_open True)) 0
   \<and> videoRef (cleanupCamera (camera_open True)) = Some \<lparr> srcObject = None, playing = True \<rparr>
   \<and> cleanupCamera (cleanupCamera (camera_open True)) = cleanupCamera (camera_open True)
   \<and> cleanupCamera (cleanupCamera (initial True)) = initial True"
  using cleanupCamera_idempotent [of "camera_open True"]
    cleanupCamera_idempotent [of "initial True"]
  by (simp add: camera_open_def initial_def live_def cleanupCamera_def stopTracks_def)


lemma cleanupCamera_frame:
  "appState (cleanupCamera s) = appState s"
  "fen (cleanupCamera s) = fen s"
  "error (cleanupCamera s) = error s"
  "imageDataUrl (cleanupCamera s) = imageDataUrl s"
  "hasCameraPermission (cleanupCamera s) = hasCameraPermission s"
  "toasts (cleanupCamera s) = toasts s"
  "fetches (cleanupCamera s) = fetches s"
  "pendingFetch (cleanupCamera s) = pendingFetch s"
  "pendingBlob (cleanupCamera s) = pendingBlob s"
  "pendingCamera (cleanupCamera s) = pendingCamera s"
  "cropperRef (cleanupCamera s) = cropperRef s"
  by (simp_all add: cleanupCamera_def Let_def split: option.splits)

subsection \<open>Reset\<close>

text \<open>
  \<open>handleReset\<close>, from any state: the state is \<open>Idle\<close>; the FEN result, the error message,
  the captured image and the camera-permission flag are null; the stream handle is null, no
  track of the stream that was held in it is running, and a mounted video element has no
  source. After the render that follows, the idle view is shown and the video element is
  gone.
\<close>

lemma handleReset_state:
  "appState (handleReset s) = Idle
   \<and> fen (handleReset s) = None
   \<and> error (handleReset s) = None
   \<and> imageDataUrl (handleReset s) = None
   \<and> hasCameraPermission (handleReset s) = None
   \<and> streamRef (handleReset s) = None
   \<and> (\<forall>stream. streamRef s = Some stream \<longrightarrow> \<not> live (handleReset s) stream)
   \<and> (\<forall>v. videoRef (handleReset s) = Some v \<longrightarrow> srcObject v = None)
   \<and> renderContent (commit (handleReset s)) = IdleView
   \<and> videoRef (commit (handleReset s)) = None"
proof -
  have c: "streamRef (cleanupCamera s) = None"
    "\<forall>v. videoRef (cleanupCamera s) = Some v \<longrightarrow> srcObject v = None"
    "\<forall>stream. streamRef s = Some stream \<longrightarrow> \<not> live (cleanupCamera s) stream"
    by (auto simp: cleanupCamera_def live_def stopTracks_def Let_def split: option.splits)
  have st: "appState (handleReset s) = Idle"
    by (simp add: handleReset_def)
  have "appState (commit (handleReset s)) = Idle"
    using st by (simp add: commit_appState)
  then have v: "renderContent (commit (handleReset s)) = IdleView"
    by (simp add: renderContent_def)
  have "videoRef (commit (handleReset s)) = None"
    using st by (simp add: commit_videoRef)
  with c v show ?thesis
    by (simp add: handleReset_def live_def)
qed

subsection \<open>The answer to a submission\<close>

lemma fetch_resolved_accepted:
  "accepted r \<Longrightarrow>
     \<exists>result f. json r = Some result \<and> fen_of result = Some f \<and> truthy f
       \<and> fetch_resolved r s = s\<lparr> fen := Some f, appState := FenReceived, imageDataUrl := None \<rparr>"
  by (auto simp: accepted_def fetch_resolved_def submission_finally_def split: option.splits)

lemma fetch_resolved_refused:
  "\<not> accepted r \<Longrightarrow> fetch_resolved r s = fetch_rejected s"
  by (auto simp: accepted_def fetch_resolved_def fetch_rejected_def split: option.splits)

lemma fetch_rejected_state:
  "appState (fetch_rejected s) = Error"
  "error (fetch_rejected s) = Some submitErrorMessage"
  "fen (fetch_rejected s) = fen s"
  "fetches (fetch_rejected s) = fetches s"
  "toasts (fetch_rejected s) = toasts s @
     [\<lparr> variant = Some ''destructive'', title = ''Submission Failed'',
        description = Some ''Could not get FEN from the server. Please try again.'' \<rparr>]"
  by (simp_all add: fetch_rejected_def submission_failed_def submission_finally_def)

lemma accepted_examples:
  "accepted fen_response" "\<not> accepted server_error" "\<not> accepted nofen_response"
  by (simp_all add: accepted_def ok_def fen_response_def server_error_def nofen_response_def
        empty_board_def)

text \<open>
  C5. In state \<open>Loading\<close> with a submission in flight, a response with a 2xx status and a
  JSON object whose \<open>fen\<close> field is a non-empty string moves the component to
  \<open>FenReceived\<close>, holding exactly that string, and the result card shows it.
\<close>

theorem valid_response_completes:
  assumes "appState s = Loading" and "0 < pendingFetch s"
    and "ok r" and "json r = Some (JObj kvs)"
    and "map_of kvs ''fen'' = Some (JStr f)" and "f \<noteq> []"
  shows "\<exists>s'. step (FetchResolved r) s = Some s'
           \<and> appState s' = FenReceived \<and> fen s' = Some (JStr f)
           \<and> renderContent s' = FenView (Some (JStr f))"
proof -
  let ?s0 = "s\<lparr> pendingFetch := pendingFetch s - 1 \<rparr>"
  let ?s1 = "fetch_resolved r ?s0"
  have a: "appState ?s1 = FenReceived" and f: "fen ?s1 = Some (JStr f)"
    using assms(3-6) by (simp_all add: fetch_resolved_def submission_finally_def)
  have a': "appState (commit ?s1) = FenReceived"
    using a by (simp add: commit_appState)
  have f': "fen (commit ?s1) = Some (JStr f)"
    using f by (simp add: commit_frame)
  have "step (FetchResolved r) s = Some (commit ?s1)"
    using assms(2) by simp
  with a' f' show ?thesis
    by (simp add: renderContent_def)
qed

theorem valid_response_completes_witness:
  "appState submitting = Loading \<and> 0 < pendingFetch submitting \<and> ok fen_response
   \<and> json fen_response = Some (JObj [(''fen'', JStr empty_board)])
   \<and> empty_board = ''8/8/8/8/8/8/8/8 w - - 0 1''
   \<and> (\<exists>s'. step (FetchResolved fen_response) submitting = Some s'
         \<and> appState s' = FenReceived \<and> fen s' = Some (JStr ''8/8/8/8/8/8/8/8 w - - 0 1'')
         \<and> renderContent s' = FenView (Some (JStr ''8/8/8/8/8/8/8/8 w - - 0 1'')))"
  using valid_response_completes [of submitting fen_response "[(''fen'', JStr empty_board)]" empty_board]
  by (simp add: submitting_def initial_def fen_response_def ok_def empty_board_def)

subsection \<open>What the handlers leave alone\<close>

lemmas model_defs =
  commit_def render_pass_def run_effect_def effect_body_def effect_cleanup_def render_refs_def
  renderContent_def shown_def requestCameraPermission_def cleanupCamera_def
  getUserMedia_resolved_def getUserMedia_rejected_def handleCapture_def handleSubmit_def
  handleReset_def handleRetake_def copyFenToClipboard_def toBlob_callback_def
  fetch_resolved_def fetch_rejected_def submission_failed_def submission_finally_def
  stopTracks_def destroy_def newCropper_def getCroppedCanvas_def cropperReady_def

lemma handleSubmit_ready:
  assumes "cropperRef s = Some c" and "ready c"
  shows "handleSubmit s =
           s\<lparr> appState := Loading,
              pendingBlob := pendingBlob s @
                [\<lparr> canvasOptions = \<lparr> width = 512, height = 512, imageSmoothingEnabled = True,
                                      imageSmoothingQuality = ''high'' \<rparr>,
                   blobType = ''image/jpeg'' \<rparr>] \<rparr>"
  using assms by (simp add: handleSubmit_def getCroppedCanvas_def)

lemma handleSubmit_not_ready:
  assumes "cropperRef s = Some c" and "\<not> ready c"
  shows "handleSubmit s = s\<lparr> appState := Loading \<rparr>"
  using assms by (simp add: handleSubmit_def getCroppedCanvas_def)

lemma handleSubmit_frame:
  "fetches (handleSubmit s) = fetches s"
  "pendingFetch (handleSubmit s) = pendingFetch s"
  "toasts (handleSubmit s) = toasts s"
  "cropperRef (handleSubmit s) = cropperRef s"
  "length (pendingBlob (handleSubmit s)) \<le> Suc (length (pendingBlob s))"
  by (simp_all add: handleSubmit_def getCroppedCanvas_def Let_def split: option.splits)

lemma handler_frame:
  "fetches (handler h s) = fetches s"
  "pendingFetch (handler h s) = pendingFetch s"
  by (cases h;
      simp add: requestCameraPermission_def handleCapture_def handleSubmit_frame handleReset_def
        handleRetake_def copyFenToClipboard_def cleanupCamera_frame Let_def
        split: option.splits)+

lemma handleCapture_frame:
  "fetches (handleCapture c s) = fetches s"
  "pendingFetch (handleCapture c s) = pendingFetch s"
  "pendingBlob (handleCapture c s) = pendingBlob s"
  by (simp_all add: handleCapture_def cleanupCamera_frame split: option.splits)

lemma getUserMedia_frame:
  "fetches (getUserMedia_resolved n s) = fetches s"
  "pendingFetch (getUserMedia_resolved n s) = pendingFetch s"
  "pendingBlob (getUserMedia_resolved n s) = pendingBlob s"
  "fetches (getUserMedia_rejected s) = fetches s"
  "pendingFetch (getUserMedia_rejected s) = pendingFetch s"
  "pendingBlob (getUserMedia_rejected s) = pendingBlob s"
  by (simp_all add: getUserMedia_resolved_def getUserMedia_rejected_def Let_def
        split: option.splits)

lemma toBlob_callback_frame:
  "fetches (toBlob_callback None s) = fetches s"
  "pendingFetch (toBlob_callback None s) = pendingFetch s"
  "pendingBlob (toBlob_callback b s) = pendingBlob s"
  "appState (toBlob_callback None s) = Error"
  "error (toBlob_callback None s) = Some encodeErrorMessage"
  "toasts (toBlob_callback b s) = toasts s"
  "fetches (toBlob_callback (Some bl) s) = fetches s @
     [\<lparr> url = predictUrl, httpMethod = ''POST'',
        formData = [\<lparr> fieldName = ''file'', fileName = ''chessboard.jpg'',
                      contentType = mimeType bl, content = bytes bl \<rparr>] \<rparr>]"
  "pendingFetch (toBlob_callback (Some bl) s) = Suc (pendingFetch s)"
  "appState (toBlob_callback (Some bl) s) = appState s"
  by (simp_all add: toBlob_callback_def split: option.splits)

lemma fetch_frame:
  "fetches (fetch_resolved r s) = fetches s"
  "pendingFetch (fetch_resolved r s) = pendingFetch s"
  "pendingBlob (fetch_resolved r s) = pendingBlob s"
  "pendingFetch (fetch_rejected s) = pendingFetch s"
  "pendingBlob (fetch_rejected s) = pendingBlob s"
  by (simp_all add: fetch_resolved_def fetch_rejected_def submission_failed_def
        submission_finally_def split: option.splits)

lemma handler_pendingBlob:
  "h \<noteq> HandleSubmit \<Longrightarrow> pendingBlob (handler h s) = pendingBlob s"
  by (cases h;
      simp add: requestCameraPermission_def handleCapture_def handleReset_def
        handleRetake_def copyFenToClipboard_def cleanupCamera_frame Let_def
        split: option.splits)

text \<open>Only a blob callback sends a request, and it sends one.\<close>

lemma step_sends:
  assumes "step e s = Some s'" and "fetches s' \<noteq> fetches s"
  shows "\<exists>b. e = ToBlobCallback (Some b) \<and> length (fetches s') = Suc (length (fetches s))"
proof (cases e)
  case (ToBlobCallback blob)
  show ?thesis
  proof (cases blob)
    case None
    with ToBlobCallback assms show ?thesis
      by (auto simp: commit_frame toBlob_callback_frame split: list.splits)
  next
    case (Some b)
    with ToBlobCallback assms show ?thesis
      by (auto simp: commit_frame toBlob_callback_frame split: list.splits)
  qed
next
  case CropperReady
  with assms show ?thesis
    by (auto split: option.splits if_splits)
qed (use assms in \<open>auto simp: commit_frame handler_frame handleCapture_frame
       getUserMedia_frame fetch_frame fetch_rejected_state split: if_splits\<close>)

text \<open>Only the network settles a request in flight.\<close>

lemma step_settles:
  assumes "step e s = Some s'" and "pendingFetch s' < pendingFetch s"
  shows "e = FetchRejected \<or> (\<exists>r. e = FetchResolved r)"
proof (cases e)
  case (ToBlobCallback blob)
  with assms show ?thesis
    by (cases blob) (auto simp: commit_frame toBlob_callback_frame split: list.splits)
next
  case CropperReady
  with assms show ?thesis
    by (auto split: option.splits if_splits)
qed (use assms in \<open>auto simp: commit_frame handler_frame handleCapture_frame
       getUserMedia_frame split: if_splits\<close>)

text \<open>Only a click on Submit asks for a blob, and it asks for one.\<close>

lemma step_asks:
  assumes "step e s = Some s'" and "length (pendingBlob s) < length (pendingBlob s')"
  shows "e = Click HandleSubmit \<and> length (pendingBlob s') = Suc (length (pendingBlob s))"
proof (cases e)
  case (Click h)
  show ?thesis
  proof (cases "h = HandleSubmit")
    case True
    with Click assms have "length (pendingBlob s) < length (pendingBlob (handleSubmit s))"
      and "s' = commit (handleSubmit s)"
      by (auto simp: commit_frame split: if_splits)
    with handleSubmit_frame(5) [of s] Click True show ?thesis
      by (simp add: commit_frame)
  next
    case False
    with Click assms show ?thesis
      by (auto simp: commit_frame handler_pendingBlob split: if_splits)
  qed
next
  case (ToBlobCallback blob)
  with assms show ?thesis
    by (auto simp: commit_frame toBlob_callback_frame split: list.splits)
next
  case CropperReady
  with assms show ?thesis
    by (auto split: option.splits if_splits)
qed (use assms in \<open>auto simp: commit_frame handleCapture_frame getUserMedia_frame fetch_frame
       split: if_splits\<close>)

lemma click_submit:
  assumes "appState s = ImageCaptured"
  shows "step (Click HandleSubmit) s = Some (commit (handleSubmit s))"
  using assms by (simp add: shown_def renderContent_def)

subsection \<open>Submitting\<close>

text \<open>
  C9. One POST per submit. On the crop card with a ready crop session, a click on Submit
  sends nothing by itself and asks the canvas for one blob of type \<open>image/jpeg\<close>; the blob
  callback then sends exactly one request: a POST to the prediction endpoint whose form
  data is the single part \<open>file\<close>, filename \<open>chessboard.jpg\<close>, with the blob's own type as
  content type (so \<open>image/jpeg\<close> for the JPEG image that was asked for) and the blob's bytes.
  No retry: in any state, only a blob callback sends a request, and it sends one; only a
  click on Submit asks for a blob, and it asks for one. No timeout: only the answer or the
  failure of the network settles a request in flight.
\<close>

theorem submit_posts_once:
  assumes "appState s = ImageCaptured" and "cropperRef s = Some c" and "ready c"
    and "pendingBlob s = []"
  shows "(\<exists>s1 s2. step (Click HandleSubmit) s = Some s1
            \<and> fetches s1 = fetches s
            \<and> pendingBlob s1 =
                 [\<lparr> canvasOptions = \<lparr> width = 512, height = 512, imageSmoothingEnabled = True,
                                       imageSmoothingQuality = ''high'' \<rparr>,
                    blobType = ''image/jpeg'' \<rparr>]
            \<and> step (ToBlobCallback (Some b)) s1 = Some s2
            \<and> fetches s2 = fetches s @
                 [\<lparr> url = ''http://10.147.210.166:8000/predict'', httpMethod = ''POST'',
                    formData = [\<lparr> fieldName = ''file'', fileName = ''chessboard.jpg'',
                                  contentType = mimeType b, content = bytes b \<rparr>] \<rparr>]
            \<and> pendingFetch s2 = Suc (pendingFetch s)
            \<and> pendingBlob s2 = [])
         \<and> (\<forall>e t t'. step e t = Some t' \<and> fetches t' \<noteq> fetches t
               \<longrightarrow> (\<exists>b'. e = ToBlobCallback (Some b')
                      \<and> length (fetches t') = Suc (length (fetches t))))
         \<and> (\<forall>e t t'. step e t = Some t' \<and> length (pendingBlob t) < length (pendingBlob t')
               \<longrightarrow> e = Click HandleSubmit
                   \<and> length (pendingBlob t') = Suc (length (pendingBlob t)))
         \<and> (\<forall>e t t'. step e t = Some t' \<and> pendingFetch t' < pendingFetch t
               \<longrightarrow> e = FetchRejected \<or> (\<exists>r. e = FetchResolved r))"
proof -
  let ?s1 = "commit (handleSubmit s)"
  let ?s2 = "commit (toBlob_callback (Some b) (?s1\<lparr> pendingBlob := [] \<rparr>))"
  have h: "handleSubmit s =
           s\<lparr> appState := Loading,
              pendingBlob := pendingBlob s @
                [\<lparr> canvasOptions = \<lparr> width = 512, height = 512, imageSmoothingEnabled = True,
                                      imageSmoothingQuality = ''high'' \<rparr>,
                   blobType = ''image/jpeg'' \<rparr>] \<rparr>"
    using assms(2,3) by (rule handleSubmit_ready)
  have pb: "pendingBlob ?s1 =
      [\<lparr> canvasOptions = \<lparr> width = 512, height = 512, imageSmoothingEnabled = True,
                            imageSmoothingQuality = ''high'' \<rparr>,
         blobType = ''image/jpeg'' \<rparr>]"
    using assms(4) by (simp add: commit_frame h)
  have c: "step (ToBlobCallback (Some b)) ?s1 = Some ?s2"
    using pb by simp
  have f1: "fetches ?s1 = fetches s" and p1: "pendingFetch ?s1 = pendingFetch s"
    by (simp_all add: commit_frame handleSubmit_frame)
  have f2: "fetches ?s2 = fetches s @
                 [\<lparr> url = ''http://10.147.210.166:8000/predict'', httpMethod = ''POST'',
                    formData = [\<lparr> fieldName = ''file'', fileName = ''chessboard.jpg'',
                                  contentType = mimeType b, content = bytes b \<rparr>] \<rparr>]"
    using f1 by (simp add: commit_frame toBlob_callback_frame predictUrl_def)
  have p2: "pendingFetch ?s2 = Suc (pendingFetch s)" "pendingBlob ?s2 = []"
    using p1 by (simp_all add: commit_frame toBlob_callback_frame)
  have flow: "\<exists>s1 s2. step (Click HandleSubmit) s = Some s1
            \<and> fetches s1 = fetches s
            \<and> pendingBlob s1 =
                 [\<lparr> canvasOptions = \<lparr> width = 512, height = 512, imageSmoothingEnabled = True,
                                       imageSmoothingQuality = ''high'' \<rparr>,
                    blobType = ''image/jpeg'' \<rparr>]
            \<and> step (ToBlobCallback (Some b)) s1 = Some s2
            \<and> fetches s2 = fetches s @
                 [\<lparr> url = ''http://10.147.210.166:8000/predict'', httpMethod = ''POST'',
                    formData = [\<lparr> fieldName = ''file'', fileName = ''chessboard.jpg'',
                                  contentType = mimeType b, content = bytes b \<rparr>] \<rparr>]
            \<and> pendingFetch s2 = Suc (pendingFetch s)
            \<and> pendingBlob s2 = []"
    using click_submit [OF assms(1)] pb c f1 f2 p2 by blast
  show ?thesis
    using flow step_sends step_asks step_settles by blast
qed

theorem submit_posts_once_witness:
  "appState cropping = ImageCaptured
   \<and> cropperRef cropping = Some (cropperReady (newCropper \<lparr> src = frame \<rparr>))
   \<and> ready (cropperReady (newCropper \<lparr> src = frame \<rparr>))
   \<and> pendingBlob cropping = []
   \<and> fetches cropping = []
   \<and> (\<exists>s1 s2. step (Click HandleSubmit) cropping = Some s1
         \<and> step (ToBlobCallback (Some \<lparr> mimeType = ''image/jpeg'', bytes = [255, 216, 255] \<rparr>)) s1
              = Some s2
         \<and> fetches s2 =
              [\<lparr> url = ''http://10.147.210.166:8000/predict'', httpMethod = ''POST'',
                 formData = [\<lparr> fieldName = ''file'', fileName = ''chessboard.jpg'',
                               contentType = ''image/jpeg'', content = [255, 216, 255] \<rparr>] \<rparr>])"
proof -
  have h: "appState cropping = ImageCaptured"
    "cropperRef cropping = Some (cropperReady (newCropper \<lparr> src = frame \<rparr>))"
    "ready (cropperReady (newCropper \<lparr> src = frame \<rparr>))"
    "pendingBlob cropping = []"
    by (simp_all add: cropping_def initial_def cropperReady_def newCropper_def)
  have f: "fetches cropping = []"
    by (simp add: cropping_def initial_def)
  obtain s1 s2 where "step (Click HandleSubmit) cropping = Some s1"
    "step (ToBlobCallback (Some \<lparr> mimeType = ''image/jpeg'', bytes = [255, 216, 255] \<rparr>)) s1
       = Some s2"
    "fetches s2 = fetches cropping @
       [\<lparr> url = ''http://10.147.210.166:8000/predict'', httpMethod = ''POST'',
          formData = [\<lparr> fieldName = ''file'', fileName = ''chessboard.jpg'',
                        contentType = mimeType \<lparr> mimeType = ''image/jpeg'', bytes = [255, 216, 255] \<rparr>,
                        content = bytes \<lparr> mimeType = ''image/jpeg'', bytes = [255, 216, 255] \<rparr> \<rparr>] \<rparr>]"
    using submit_posts_once [OF h, of "\<lparr> mimeType = ''image/jpeg'', bytes = [255, 216, 255] \<rparr>"]
    by blast
  with h f show ?thesis by auto
qed

text \<open>
  Submit and the state of the crop engine: after Retake the crop card holds a destroyed
  crop session with Submit still shown, and right after a capture the session is not ready
  yet. In both cases a click on Submit ends in \<open>Loading\<close> with no blob asked for and
  nothing sent; once the engine is ready, the click asks for one blob.
\<close>

lemma submit_after_retake:
  "map_option (\<lambda>s. (appState s, pendingBlob s, fetches s, map_option destroyed (cropperRef s)))
     (run [Click HandleRetake, Click HandleSubmit] cropping) = Some (Loading, [], [], Some True)"
  by (simp add: model_defs cropping_def initial_def frame_def Let_def)

lemma submit_before_ready:
  "map_option (\<lambda>s. (appState s, pendingBlob s, fetches s))
     (run [ClickCapture (Some frame), Click HandleSubmit] (camera_open True))
     = Some (Loading, [], [])"
  by (simp add: model_defs camera_open_def initial_def frame_def Let_def)

lemma submit_when_ready:
  "map_option (\<lambda>s. (appState s, length (pendingBlob s), fetches s))
     (run [ClickCapture (Some frame), CropperReady, Click HandleSubmit] (camera_open True))
     = Some (Loading, 1, [])"
  by (simp add: model_defs camera_open_def initial_def frame_def Let_def)

subsection \<open>Leaving the camera card and the crop card\<close>

text \<open>
  Capture and Close stop the stream before the next card is rendered; Submit and teardown
  destroy the crop session. Teardown leaves the streams as they are.
\<close>

lemma camera_released_by_clicks:
  assumes "appState s = CameraOpen" and "streamRef s = Some stream"
  shows "\<exists>s'. step (Click HandleReset) s = Some s' \<and> appState s' = Idle
           \<and> \<not> live s' stream \<and> streamRef s' = None"
    and "videoRef s \<noteq> None \<Longrightarrow>
         \<exists>s'. step (ClickCapture (Some u)) s = Some s' \<and> \<not> live s' stream \<and> streamRef s' = None"
proof -
  have c: "\<not> live (cleanupCamera t) stream" "streamRef (cleanupCamera t) = None"
    if "streamRef t = Some stream" for t
    using that
    by (auto simp: cleanupCamera_def live_def stopTracks_def Let_def split: option.splits)
  have r: "step (Click HandleReset) s = Some (commit (handleReset s))"
    using assms(1) by (simp add: shown_def renderContent_def)
  have "\<not> live (handleReset s) stream" "streamRef (handleReset s) = None"
    "appState (handleReset s) = Idle"
    using c [OF assms(2)] by (simp_all add: handleReset_def live_def)
  then have "appState (commit (handleReset s)) = Idle"
    "\<not> live (commit (handleReset s)) stream" "streamRef (commit (handleReset s)) = None"
    by (simp_all add: live_commit commit_frame commit_appState)
  with r show "\<exists>s'. step (Click HandleReset) s = Some s' \<and> appState s' = Idle
           \<and> \<not> live s' stream \<and> streamRef s' = None"
    by blast
  assume v: "videoRef s \<noteq> None"
  have k: "step (ClickCapture (Some u)) s = Some (commit (handleCapture (Some u) s))"
    using assms(1) by (simp add: shown_def renderContent_def)
  have "\<not> live (handleCapture (Some u) s) stream" "streamRef (handleCapture (Some u) s) = None"
    using v c [of "s\<lparr> imageDataUrl := Some u, appState := ImageCaptured \<rparr>"] assms(2)
    by (auto simp: handleCapture_def)
  then have "\<not> live (commit (handleCapture (Some u) s)) stream"
    "streamRef (commit (handleCapture (Some u) s)) = None"
    by (simp_all add: live_commit commit_frame)
  with k show "\<exists>s'. step (ClickCapture (Some u)) s = Some s' \<and> \<not> live s' stream \<and> streamRef s' = None"
    by blast
qed

lemma crop_released:
  assumes "cropperRef s = Some c" and "effectCleanup s"
  shows "cropperRef (unmount s) = Some (destroy c)"
    and "effectDeps s = (ImageCaptured, d) \<Longrightarrow>
         cropperRef (commit (handleSubmit s)) = Some (destroy c)"
  using assms
  by (simp_all add: unmount_def effect_cleanup_def handleSubmit_def getCroppedCanvas_def
        commit_def render_pass_def run_effect_def effect_body_def render_refs_def
        renderContent_def destroy_def Let_def)

lemma unmount_streams:
  "streamRef (unmount s) = streamRef s" "tracks (unmount s) = tracks s"
  by (simp_all add: unmount_def effect_cleanup_def split: option.splits)

subsection \<open>What can be reached from the first render\<close>

text \<open>
  A granted stream opens the camera card only if the video element is mounted, and the
  video element is mounted only on the camera card. From the first render the component
  therefore stays on the idle view and the error card.
\<close>

lemma run_reachable: "reachable s \<Longrightarrow> run es s = Some s' \<Longrightarrow> reachable s'"
proof (induction es arbitrary: s)
  case Nil
  then show ?case by simp
next
  case (Cons e es)
  then show ?case
    by (auto split: option.splits intro: reachable.reach_step)
qed








text \<open>
  C2. The specification has at most one camera stream, crop session or submission alive in
  any state reached from the first render, the previous one being torn down first.
  \<open>requestCameraPermission\<close> does call
  \<open>cleanupCamera\<close> first, but a stream is stored only if the video element is mounted
  (line 57), and the idle view renders none: two clicks on Scan Chessboard, each granted,
  leave two streams running and none stored, so that no later cleanup can stop them.
\<close>

theorem leaked_streams:
  "\<exists>s. run [Click RequestCameraPermission, Click RequestCameraPermission,
             GetUserMediaResolved 1, GetUserMediaResolved 1] (initial True) = Some s
       \<and> reachable s \<and> appState s = Idle \<and> streamRef s = None
       \<and> live s 0 \<and> live s 1"
proof -
  let ?es = "[Click RequestCameraPermission, Click RequestCameraPermission,
             GetUserMediaResolved 1, GetUserMediaResolved 1]"
  have r: "run ?es (initial True) =
      Some ((initial True)\<lparr> hasCameraPermission := Some True,
               tracks := (\<lambda>_. [])(0 := [Live], 1 := [Live]), nextStream := 2 \<rparr>)"
    by (simp add: model_defs initial_def Let_def)
  then have "reachable ((initial True)\<lparr> hasCameraPermission := Some True,
               tracks := (\<lambda>_. [])(0 := [Live], 1 := [Live]), nextStream := 2 \<rparr>)"
    using run_reachable [OF reachable.reach_initial] by blast
  with r show ?thesis
    by (simp add: live_def initial_def)
qed

text \<open>
  C10. The specification has reset, from any state, restore the initial configuration and
  stop the camera stream, if any. \<open>handleReset\<close> stops the stream held in \<open>streamRef\<close>, and
  a granted stream is never stored there: after a granted request, a refused one and a
  click on Try Again the component is back on the idle view with every stored value null,
  and the track of the granted stream is still running.
\<close>

theorem reset_leaves_stream:
  "\<exists>s. run [Click RequestCameraPermission, GetUserMediaResolved 1,
             Click RequestCameraPermission, GetUserMediaRejected,
             Click HandleReset] (initial True) = Some s
       \<and> reachable s \<and> appState s = Idle \<and> fen s = None \<and> error s = None
       \<and> imageDataUrl s = None \<and> hasCameraPermission s = None \<and> streamRef s = None
       \<and> videoRef s = None \<and> live s 0"
proof -
  let ?es = "[Click RequestCameraPermission, GetUserMediaResolved 1,
             Click RequestCameraPermission, GetUserMediaRejected, Click HandleReset]"
  have r: "run ?es (initial True) =
      Some ((initial True)\<lparr> tracks := (\<lambda>_. [])(0 := [Live]), nextStream := 1,
               toasts := [cameraToast] \<rparr>)"
    by (simp add: model_defs initial_def Let_def)
  then have "reachable ((initial True)\<lparr> tracks := (\<lambda>_. [])(0 := [Live]), nextStream := 1,
               toasts := [cameraToast] \<rparr>)"
    using run_reachable [OF reachable.reach_initial] by blast
  with r show ?thesis
    by (simp add: live_def initial_def)
qed

subsection \<open>Entering the error card\<close>





end
